theory Spec2Isabelle
  imports Main "HOL-Library.AList"
begin

section \<open>Python values and library operations used by \<open>main.py\<close>\<close>

text \<open>
  Python strings are modelled as \<open>string\<close>. The two string methods the source calls are
  written out: \<open>s.startswith(p)\<close> and \<open>s.replace(old, new)\<close>. Python's \<open>replace\<close>
  substitutes every non-overlapping occurrence of \<open>old\<close>, scanning from the left; with an
  empty \<open>old\<close> it inserts \<open>new\<close> before every character and at the end.
  \<open>str_contains old s\<close> is Python's \<open>old in s\<close>.
\<close>

definition startswith :: "string \<Rightarrow> string \<Rightarrow> bool" where
  "startswith s p = (take (length p) s = p)"

fun str_replace :: "string \<Rightarrow> string \<Rightarrow> string \<Rightarrow> string" where
  "str_replace [] old new = (if old = [] then new else [])"
| "str_replace (c # cs) old new =
     (if old = [] then new @ c # str_replace cs old new
      else if startswith (c # cs) old
        then new @ str_replace (drop (length old) (c # cs)) old new
      else c # str_replace cs old new)"

fun str_contains :: "string \<Rightarrow> string \<Rightarrow> bool" where
  "str_contains old [] = (old = [])"
| "str_contains old (c # cs) = (startswith (c # cs) old \<or> str_contains old cs)"

text \<open>
  The values \<open>json.load\<close> returns and \<open>json.dump\<close> accepts. A JSON object is a Python
  dict, kept as an association list in insertion order. Numbers with a fraction or an
  exponent (Python floats) are outside the model.
\<close>

datatype json =
    JNull
  | JBool bool
  | JInt int
  | JStr string
  | JArr "json list"
  | JObj "(string \<times> json) list"

text \<open>Truth value of a Python object, as tested by \<open>if contacts:\<close>.\<close>

fun truthy :: "json \<Rightarrow> bool" where
  "truthy JNull = False"
| "truthy (JBool b) = b"
| "truthy (JInt i) = (i \<noteq> 0)"
| "truthy (JStr s) = (s \<noteq> [])"
| "truthy (JArr xs) = (xs \<noteq> [])"
| "truthy (JObj kvs) = (kvs \<noteq> [])"

text \<open>
  The exceptions that matter to \<open>load_contacts\<close>, whose \<open>except\<close> clause names two of
  them, and \<open>HTTPException(status_code, detail)\<close>. For the status 500 responses the source
  appends \<open>str(e)\<close> of the caught exception to a fixed text; the model keeps the fixed text.
\<close>

datatype exn = JSONDecodeError | FileNotFoundError | UnicodeDecodeError | OSError

datatype http_exception = HTTPException (status_code: nat) (detail: string)

section \<open>The authorization gate\<close>

text \<open>
  \<open>API_TOKEN\<close> is read from the environment at start-up (the process stops if it is
  empty or missing), so it is a parameter here. The header is \<open>None\<close> when the request
  has no \<open>Authorization\<close> header. \<open>not authorization\<close> holds for \<open>None\<close> and for the
  empty string.
\<close>

definition msg_header_required :: string where
  "msg_header_required = ''Authorization header is required''"

definition msg_invalid_format :: string where
  "msg_invalid_format =
     ''Invalid authorization format. Use '' @ [CHR 0x27] @ ''Bearer <token>'' @ [CHR 0x27]"

definition msg_invalid_token :: string where
  "msg_invalid_token = ''Invalid token''"

definition validate_token :: "string \<Rightarrow> string option \<Rightarrow> http_exception + string" where
  "validate_token API_TOKEN authorization =
     (case authorization of
        None \<Rightarrow> Inl (HTTPException 401 msg_header_required)
      | Some a \<Rightarrow>
          if a = [] then Inl (HTTPException 401 msg_header_required)
          else if \<not> startswith a ''Bearer '' then Inl (HTTPException 401 msg_invalid_format)
          else let token = str_replace a ''Bearer '' '''' in
            if token \<noteq> API_TOKEN then Inl (HTTPException 401 msg_invalid_token)
            else Inr token)"

section \<open>The store: one JSON file\<close>

text \<open>
  \<open>CONTACTS_FILE\<close> is the only path the program touches. Its state is either that no
  file is there, or a regular file with the given raw content. \<open>os.path.exists\<close> and
  \<open>open(CONTACTS_FILE, 'r')\<close> read that state.
\<close>

datatype fs_node = Missing | Regular string

definition path_exists :: "fs_node \<Rightarrow> bool" where
  "path_exists disk = (disk \<noteq> Missing)"

definition open_read :: "fs_node \<Rightarrow> exn + string" where
  "open_read disk = (case disk of Missing \<Rightarrow> Inl FileNotFoundError | Regular s \<Rightarrow> Inr s)"

text \<open>
  \<open>json.load\<close> and \<open>json.dump\<close> belong to Python's standard library, not to this
  repository, so they are parameters. \<open>json_load J s\<close> is the outcome of \<open>json.load(f)\<close>
  on a file opened with \<open>encoding='utf-8'\<close> whose raw content is \<open>s\<close>: the parsed value,
  or the exception raised (\<open>JSONDecodeError\<close> for text that is not JSON,
  \<open>UnicodeDecodeError\<close> for bytes that are not UTF-8). \<open>json_dump J v\<close> is the text
  that \<open>json.dump(v, f, indent=2, ensure_ascii=False)\<close> writes.
\<close>

record json_module =
  json_load :: "string \<Rightarrow> exn + json"
  json_dump :: "json \<Rightarrow> string"

text \<open>
  \<open>load_contacts\<close>: the \<open>except\<close> clause catches \<open>JSONDecodeError\<close> and
  \<open>FileNotFoundError\<close> only; any other exception leaves the function.
\<close>

definition load_except :: "exn \<Rightarrow> exn + json" where
  "load_except e = (if e = JSONDecodeError \<or> e = FileNotFoundError then Inr (JArr []) else Inl e)"

definition load_contacts :: "json_module \<Rightarrow> fs_node \<Rightarrow> exn + json" where
  "load_contacts J disk =
     (if path_exists disk then
        (case open_read disk of
           Inl e \<Rightarrow> load_except e
         | Inr s \<Rightarrow> (case json_load J s of Inl e \<Rightarrow> load_except e | Inr v \<Rightarrow> Inr v))
      else Inr (JArr []))"

text \<open>
  \<open>save_contacts\<close> opens the file itself with mode \<open>'w'\<close>, which creates it or cuts it
  to length zero, and then writes the text into it; there is no temporary file and no
  rename. An input/output failure is a parameter: none, at \<open>open\<close> (before the file is
  touched), or after the file was opened and \<open>k\<close> characters of the text reached it.
\<close>

datatype io_fault = NoFault | OpenFails | WriteFails nat

definition save_contacts ::
  "json_module \<Rightarrow> io_fault \<Rightarrow> json \<Rightarrow> fs_node \<Rightarrow> (exn + unit) \<times> fs_node" where
  "save_contacts J fault contacts disk =
     (case fault of
        OpenFails \<Rightarrow> (Inl OSError, disk)
      | WriteFails k \<Rightarrow> (Inl OSError, Regular (take k (json_dump J contacts)))
      | NoFault \<Rightarrow> (Inr (), Regular (json_dump J contacts)))"

section \<open>The handlers\<close>

text \<open>
  The request body, already validated by the framework (a malformed body is answered
  with 422 before the handler runs), and the response model, which has the same fields
  plus \<open>id\<close> and \<open>createdAt\<close>.
\<close>

record ContactRequest =
  name :: string
  email :: string
  subject :: string
  message :: string
  phone :: "string option"
  company :: "string option"
  isDeleted :: bool

record ContactResponse = ContactRequest +
  id' :: int
  createdAt :: string

text \<open>\<open>contact.model_dump()\<close>: the fields as a dict, in declaration order.\<close>

definition optional_str :: "string option \<Rightarrow> json" where
  "optional_str x = (case x of None \<Rightarrow> JNull | Some s \<Rightarrow> JStr s)"

definition model_dump :: "ContactRequest \<Rightarrow> (string \<times> json) list" where
  "model_dump contact =
     [(''name'', JStr (name contact)),
      (''email'', JStr (email contact)),
      (''subject'', JStr (subject contact)),
      (''message'', JStr (message contact)),
      (''phone'', optional_str (phone contact)),
      (''company'', optional_str (company contact)),
      (''isDeleted'', JBool (isDeleted contact))]"

text \<open>
  The dict that is stored: \<open>d[k] = v\<close> replaces the value of a key that is present and
  appends the pair otherwise, which is \<open>AList.update\<close>.
\<close>

definition contact_data :: "ContactRequest \<Rightarrow> int \<Rightarrow> string \<Rightarrow> (string \<times> json) list" where
  "contact_data contact next_id current_time =
     AList.update ''createdAt'' (JStr current_time)
       (AList.update ''id'' (JInt next_id) (model_dump contact))"

text \<open>
  \<open>max(c["id"] for c in contacts) + 1\<close>. Iterating a list gives its elements, a dict its
  keys, a string its characters; other values are not iterable. \<open>c["id"]\<close> is defined
  on a dict that has the key. Integers are compared as integers, and \<open>True\<close>, \<open>False\<close>
  count as 1 and 0. Identifiers of any other kind either cannot be compared or cannot be
  incremented: every such run ends in an exception, which is \<open>None\<close> here (the handler
  catches every exception alike).
\<close>

fun py_iter :: "json \<Rightarrow> json list option" where
  "py_iter (JArr xs) = Some xs"
| "py_iter (JObj kvs) = Some (map (\<lambda>kv. JStr (fst kv)) kvs)"
| "py_iter (JStr s) = Some (map (\<lambda>c. JStr [c]) s)"
| "py_iter _ = None"

fun getitem_id :: "json \<Rightarrow> json option" where
  "getitem_id (JObj kvs) = map_of kvs ''id''"
| "getitem_id _ = None"

fun int_value :: "json \<Rightarrow> int option" where
  "int_value (JInt i) = Some i"
| "int_value (JBool b) = Some (if b then 1 else 0)"
| "int_value _ = None"

fun max_loop :: "int \<Rightarrow> json list \<Rightarrow> int option" where
  "max_loop m [] = Some m"
| "max_loop m (c # cs) =
     (case getitem_id c of
        None \<Rightarrow> None
      | Some v \<Rightarrow>
          (case int_value v of
             None \<Rightarrow> None
           | Some i \<Rightarrow> max_loop (if i > m then i else m) cs))"

definition max_id :: "json \<Rightarrow> int option" where
  "max_id contacts =
     (case py_iter contacts of
        None \<Rightarrow> None
      | Some [] \<Rightarrow> None
      | Some (c # cs) \<Rightarrow>
          (case getitem_id c of
             None \<Rightarrow> None
           | Some v \<Rightarrow> (case int_value v of None \<Rightarrow> None | Some m \<Rightarrow> max_loop m cs)))"

definition next_id :: "json \<Rightarrow> int option" where
  "next_id contacts =
     (if truthy contacts then (case max_id contacts of None \<Rightarrow> None | Some m \<Rightarrow> Some (m + 1))
      else Some 1)"

text \<open>\<open>contacts.append(x)\<close> exists on lists only.\<close>

fun py_append :: "json \<Rightarrow> json \<Rightarrow> json option" where
  "py_append (JArr xs) x = Some (JArr (xs @ [x]))"
| "py_append _ x = None"

definition msg_error_saving :: string where
  "msg_error_saving = ''Error saving contact: ''"

text \<open>
  \<open>create_contact\<close>. \<open>current_time\<close> is the reading of the clock,
  \<open>datetime.now().isoformat()\<close>. The whole body is inside \<open>try\<close>, and every exception
  becomes the status 500. The function returns its answer and the new state of the file.
\<close>

definition create_contact ::
  "json_module \<Rightarrow> io_fault \<Rightarrow> string \<Rightarrow> ContactRequest \<Rightarrow> fs_node
     \<Rightarrow> (http_exception + ContactResponse) \<times> fs_node" where
  "create_contact J fault current_time contact disk =
     (case load_contacts J disk of
        Inl e \<Rightarrow> (Inl (HTTPException 500 msg_error_saving), disk)
      | Inr contacts \<Rightarrow>
          (case next_id contacts of
             None \<Rightarrow> (Inl (HTTPException 500 msg_error_saving), disk)
           | Some n \<Rightarrow>
               (case py_append contacts (JObj (contact_data contact n current_time)) of
                  None \<Rightarrow> (Inl (HTTPException 500 msg_error_saving), disk)
                | Some contacts' \<Rightarrow>
                    (case save_contacts J fault contacts' disk of
                       (Inl e, disk') \<Rightarrow> (Inl (HTTPException 500 msg_error_saving), disk')
                     | (Inr u, disk') \<Rightarrow>
                         (Inr (ContactRequest.extend contact
                                 \<lparr>id' = n, createdAt = current_time\<rparr>), disk')))))"

text \<open>
  \<open>delete_all_contacts\<close>. \<open>len\<close> is defined on lists, dicts and strings; \<open>copy\<close> and
  \<open>clear\<close> on lists and dicts. \<open>str_nat\<close> is \<open>str\<close> of a count, in decimal.
\<close>

fun py_len :: "json \<Rightarrow> nat option" where
  "py_len (JArr xs) = Some (length xs)"
| "py_len (JObj kvs) = Some (length kvs)"
| "py_len (JStr s) = Some (length s)"
| "py_len _ = None"

fun py_copy :: "json \<Rightarrow> json option" where
  "py_copy (JArr xs) = Some (JArr xs)"
| "py_copy (JObj kvs) = Some (JObj kvs)"
| "py_copy _ = None"

fun py_clear :: "json \<Rightarrow> json option" where
  "py_clear (JArr xs) = Some (JArr [])"
| "py_clear (JObj kvs) = Some (JObj [])"
| "py_clear _ = None"

definition digit_char :: "nat \<Rightarrow> char" where
  "digit_char d = char_of (48 + d)"

fun str_nat :: "nat \<Rightarrow> string" where
  "str_nat n = (if n < 10 then [digit_char n] else str_nat (n div 10) @ [digit_char (n mod 10)])"

definition msg_error_deleting :: string where
  "msg_error_deleting = ''Error deleting contacts: ''"

definition delete_all_contacts ::
  "json_module \<Rightarrow> io_fault \<Rightarrow> fs_node \<Rightarrow> (http_exception + (string \<times> json) list) \<times> fs_node" where
  "delete_all_contacts J fault disk =
     (case load_contacts J disk of
        Inl e \<Rightarrow> (Inl (HTTPException 500 msg_error_deleting), disk)
      | Inr contacts \<Rightarrow>
          if \<not> truthy contacts then
            (Inr [(''message'', JStr ''No contacts to delete''), (''deleted_count'', JInt 0)], disk)
          else
            (case py_len contacts of
               None \<Rightarrow> (Inl (HTTPException 500 msg_error_deleting), disk)
             | Some deleted_count \<Rightarrow>
                 (case py_copy contacts of
                    None \<Rightarrow> (Inl (HTTPException 500 msg_error_deleting), disk)
                  | Some deleted_contacts \<Rightarrow>
                      (case py_clear contacts of
                         None \<Rightarrow> (Inl (HTTPException 500 msg_error_deleting), disk)
                       | Some cleared \<Rightarrow>
                           (case save_contacts J fault cleared disk of
                              (Inl e, disk') \<Rightarrow> (Inl (HTTPException 500 msg_error_deleting), disk')
                            | (Inr u, disk') \<Rightarrow>
                                (Inr [(''message'',
                                         JStr (''All '' @ str_nat deleted_count
                                               @ '' contacts deleted successfully'')),
                                      (''deleted_count'', JInt (int deleted_count)),
                                      (''deleted_contacts'', deleted_contacts)], disk'))))))"

section \<open>Values of the library functions on the texts used in the examples\<close>

text \<open>
  The concrete examples below need a concrete \<open>json_module\<close>. These two tables give
  what Python's \<open>json.load\<close> and \<open>json.dump\<close> yield on the few file contents and
  values that the examples use. \<open>text_one_record\<close> is the text that
  \<open>json.dump([{"id": 3}], f, indent=2)\<close> writes; the byte \<open>0xFF\<close> occurs in no UTF-8
  text. A text with no entry of its own stands for a file that is not JSON; a value with
  no entry is given the empty text, which no example reads.
\<close>

definition text_one_record :: string where
  \<open>text_one_record =
     ''['' @ [CHR 0x0A] @ ''  {'' @ [CHR 0x0A] @ ''    "id": 3'' @ [CHR 0x0A]
       @ ''  }'' @ [CHR 0x0A] @ '']''\<close>

definition text_two_records :: string where
  \<open>text_two_records = ''[{"id": 7}, {"id": 3}]''\<close>

definition json_load_ex :: "string \<Rightarrow> exn + json" where
  "json_load_ex s =
     (if s = ''[]'' then Inr (JArr [])
      else if s = ''{}'' then Inr (JObj [])
      else if s = text_one_record then Inr (JArr [JObj [(''id'', JInt 3)]])
      else if s = text_two_records
        then Inr (JArr [JObj [(''id'', JInt 7)], JObj [(''id'', JInt 3)]])
      else if s = [CHR 0xFF] then Inl UnicodeDecodeError
      else Inl JSONDecodeError)"

definition json_dump_ex :: "json \<Rightarrow> string" where
  "json_dump_ex v =
     (if v = JArr [] then ''[]''
      else if v = JObj [] then ''{}''
      else if v = JArr [JObj [(''id'', JInt 3)]] then text_one_record
      else [])"

definition json_ex :: json_module where
  "json_ex = \<lparr>json_load = json_load_ex, json_dump = json_dump_ex\<rparr>"

lemmas json_ex_defs =
  json_ex_def json_load_ex_def json_dump_ex_def text_one_record_def text_two_records_def

section \<open>Properties of the authorization gate\<close>

lemma str_replace_absent:
  "old \<noteq> [] \<Longrightarrow> \<not> str_contains old s \<Longrightarrow> str_replace s old new = s"
  by (induction s) auto

lemma str_replace_Bearer_prefix:
  "str_replace (''Bearer '' @ r) ''Bearer '' '''' = str_replace r ''Bearer '' ''''"
  by (simp add: startswith_def)

text \<open>
  C2. The contract says that validation succeeds exactly when the header is the prefix
  \<open>Bearer\<close> plus a space, followed by the secret. The source removes every occurrence of
  that prefix text from the header, not only the leading one, so a header whose
  remainder is not the secret is accepted, and a secret that itself contains the prefix
  text is rejected although the header carries it exactly.
\<close>

theorem validate_token_removes_every_Bearer:
  "validate_token ''s3cret'' (Some ''Bearer Bearer s3cret'') = Inr ''s3cret''
   \<and> ''Bearer s3cret'' \<noteq> ''s3cret''
   \<and> validate_token ''my Bearer key'' (Some ''Bearer my Bearer key'')
       = Inl (HTTPException 401 msg_invalid_token)"
  by (simp add: validate_token_def startswith_def)

text \<open>
  C7, as stated: a header without the prefix is answered with the invalid-format
  message, and a header with the prefix and a wrong token with \<open>Invalid token\<close>. The
  empty header has no prefix and is answered with the message of the missing header;
  a header with the prefix whose remainder is not the secret can be accepted.
\<close>

theorem validate_token_failure_counterexample:
  "\<not> startswith [] ''Bearer ''
   \<and> validate_token ''s3cret'' (Some []) = Inl (HTTPException 401 msg_header_required)
   \<and> msg_header_required \<noteq> msg_invalid_format
   \<and> startswith ''Bearer Bearer s3cret'' ''Bearer ''
   \<and> drop 7 ''Bearer Bearer s3cret'' \<noteq> ''s3cret''
   \<and> validate_token ''s3cret'' (Some ''Bearer Bearer s3cret'') = Inr ''s3cret''"
  by (simp add: validate_token_def startswith_def msg_header_required_def msg_invalid_format_def)

text \<open>
  C7, amended. A missing or empty header is answered with
  \<open>Authorization header is required\<close>; a non-empty header that does not start with the
  prefix with the invalid-format message; a header made of the prefix and a remainder
  that differs from the secret and does not contain the prefix text again with
  \<open>Invalid token\<close>. All are status 401, and the three messages differ.
\<close>

theorem validate_token_failure_messages:
  "validate_token tok None = Inl (HTTPException 401 msg_header_required)
   \<and> validate_token tok (Some []) = Inl (HTTPException 401 msg_header_required)
   \<and> (h \<noteq> [] \<and> \<not> startswith h ''Bearer ''
        \<longrightarrow> validate_token tok (Some h) = Inl (HTTPException 401 msg_invalid_format))
   \<and> (\<not> str_contains ''Bearer '' r \<and> r \<noteq> tok
        \<longrightarrow> validate_token tok (Some (''Bearer '' @ r))
            = Inl (HTTPException 401 msg_invalid_token))
   \<and> distinct [msg_header_required, msg_invalid_format, msg_invalid_token]"
proof -
  have absent: "validate_token tok None = Inl (HTTPException 401 msg_header_required)"
    and empty: "validate_token tok (Some []) = Inl (HTTPException 401 msg_header_required)"
    by (simp_all add: validate_token_def)
  have format: "validate_token tok (Some h) = Inl (HTTPException 401 msg_invalid_format)"
    if "h \<noteq> []" "\<not> startswith h ''Bearer ''"
    using that by (simp add: validate_token_def)
  have wrong: "validate_token tok (Some (''Bearer '' @ r))
                 = Inl (HTTPException 401 msg_invalid_token)"
    if "\<not> str_contains ''Bearer '' r" "r \<noteq> tok"
  proof -
    have "str_replace (''Bearer '' @ r) ''Bearer '' '''' = r"
      using that(1) str_replace_absent [of "''Bearer ''" r "''''"]
      by (simp only: str_replace_Bearer_prefix) simp
    moreover have "startswith (''Bearer '' @ r) ''Bearer ''"
      by (simp add: startswith_def)
    ultimately show ?thesis
      using that(2) by (simp add: validate_token_def Let_def del: str_replace.simps)
  qed
  have msgs: "distinct [msg_header_required, msg_invalid_format, msg_invalid_token]"
    by (simp add: msg_header_required_def msg_invalid_format_def msg_invalid_token_def)
  from absent empty format wrong msgs show ?thesis by blast
qed

theorem validate_token_failure_messages_witness:
  "''Basic abc'' \<noteq> [] \<and> \<not> startswith ''Basic abc'' ''Bearer ''
   \<and> validate_token ''s3cret'' (Some ''Basic abc'') = Inl (HTTPException 401 msg_invalid_format)
   \<and> \<not> str_contains ''Bearer '' ''wrong'' \<and> ''wrong'' \<noteq> ''s3cret''
   \<and> validate_token ''s3cret'' (Some ''Bearer wrong'') = Inl (HTTPException 401 msg_invalid_token)"
  using validate_token_failure_messages [of "''s3cret''" "''Basic abc''" "''wrong''"]
  by (simp add: startswith_def)

section \<open>Properties of the store and the handlers\<close>

lemma load_contacts_Missing: "load_contacts J Missing = Inr (JArr [])"
  by (simp add: load_contacts_def path_exists_def)

lemma load_contacts_Regular:
  "load_contacts J (Regular s) = (case json_load J s of Inl e \<Rightarrow> load_except e | Inr v \<Rightarrow> Inr v)"
  by (simp add: load_contacts_def path_exists_def open_read_def)

lemma max_loop_fold:
  "list_all2 (\<lambda>c i. getitem_id c = Some (JInt i)) cs ids \<Longrightarrow> max_loop m cs = Some (fold max ids m)"
proof (induction cs ids arbitrary: m rule: list_all2_induct)
  case Nil
  then show ?case by simp
next
  case (Cons c cs i ids)
  have "(if i > m then i else m) = max i m" by simp
  with Cons show ?case by (simp del: max.absorb1 max.absorb2 max.absorb3 max.absorb4)
qed

lemma max_id_records:
  assumes "list_all2 (\<lambda>c i. getitem_id c = Some (JInt i)) cs ids" and "ids \<noteq> []"
  shows "max_id (JArr cs) = Some (Max (set ids))"
proof -
  from assms obtain c cs' i ids' where cs: "cs = c # cs'" and ids: "ids = i # ids'"
    by (cases cs; cases ids) auto
  with assms(1) have c: "getitem_id c = Some (JInt i)"
    and rest: "list_all2 (\<lambda>c i. getitem_id c = Some (JInt i)) cs' ids'"
    by simp_all
  have "max_id (JArr cs) = max_loop i cs'"
    using c by (simp add: max_id_def cs)
  also have "\<dots> = Some (fold max ids' i)"
    by (rule max_loop_fold [OF rest])
  also have "fold max ids' i = Max (set ids)"
    using Max.set_eq_fold [of i ids'] by (simp add: ids)
  finally show ?thesis .
qed

lemma next_id_records:
  assumes "list_all2 (\<lambda>c i. getitem_id c = Some (JInt i)) cs ids"
  shows "next_id (JArr cs) = Some (if ids = [] then 1 else Max (set ids) + 1)"
proof (cases "ids = []")
  case True
  with assms have "cs = []" by simp
  with True show ?thesis by (simp add: next_id_def)
next
  case False
  with assms have "cs \<noteq> []" by auto
  with False max_id_records [OF assms False] show ?thesis by (simp add: next_id_def)
qed

lemma create_contact_on_list:
  assumes "load_contacts J disk = Inr (JArr cs)" and "next_id (JArr cs) = Some n"
  shows "create_contact J NoFault now contact disk =
           (Inr (ContactRequest.extend contact \<lparr>id' = n, createdAt = now\<rparr>),
            Regular (json_dump J (JArr (cs @ [JObj (contact_data contact n now)]))))"
  using assms by (simp add: create_contact_def save_contacts_def)

text \<open>
  C5. The identifier given to the next created record is one more than the greatest
  identifier in the collection, and 1 when the collection is empty. The collection is
  any list of records whose \<open>id\<close> is an integer; \<open>ids\<close> lists those identifiers in
  order. The save is taken to succeed.
\<close>

theorem create_contact_next_id:
  assumes "load_contacts J disk = Inr (JArr cs)"
    and "list_all2 (\<lambda>c i. getitem_id c = Some (JInt i)) cs ids"
  shows "fst (create_contact J NoFault now contact disk) =
           Inr (ContactRequest.extend contact
                  \<lparr>id' = (if ids = [] then 1 else Max (set ids) + 1), createdAt = now\<rparr>)"
  using create_contact_on_list [OF assms(1) next_id_records [OF assms(2)]] by simp

theorem create_contact_next_id_witness:
  "load_contacts json_ex (Regular text_two_records)
     = Inr (JArr [JObj [(''id'', JInt 7)], JObj [(''id'', JInt 3)]])
   \<and> list_all2 (\<lambda>c i. getitem_id c = Some (JInt i))
        [JObj [(''id'', JInt 7)], JObj [(''id'', JInt 3)]] [7, 3]
   \<and> fst (create_contact json_ex NoFault ''2024-05-01T10:00:00''
        \<lparr>name = ''A'', email = ''a@b.com'', subject = ''S'', message = ''M'',
         phone = None, company = None, isDeleted = False\<rparr> (Regular text_two_records))
     = Inr \<lparr>name = ''A'', email = ''a@b.com'', subject = ''S'', message = ''M'',
            phone = None, company = None, isDeleted = False, id' = 8,
            createdAt = ''2024-05-01T10:00:00''\<rparr>"
proof -
  have l: "load_contacts json_ex (Regular text_two_records)
     = Inr (JArr [JObj [(''id'', JInt 7)], JObj [(''id'', JInt 3)]])"
    by (simp add: load_contacts_Regular json_ex_defs)
  have r: "list_all2 (\<lambda>c i. getitem_id c = Some (JInt i))
        [JObj [(''id'', JInt 7)], JObj [(''id'', JInt 3)]] [7, 3]"
    by simp
  from create_contact_next_id [OF l r] l r show ?thesis
    by (simp add: ContactRequest.extend_def)
qed

text \<open>
  C4, as stated: for every state of the file, load returns a sequence and never fails,
  and contents that cannot be parsed give the empty sequence. A file holding the JSON
  object \<open>{}\<close> is returned as that object, which is no sequence; a file holding a byte
  that is not UTF-8 cannot be parsed, and reading it raises \<open>UnicodeDecodeError\<close>,
  which \<open>load_contacts\<close> does not catch.
\<close>

theorem load_contacts_counterexample:
  "load_contacts json_ex (Regular ''{}'') = Inr (JObj [])
   \<and> JObj [] \<noteq> JArr []
   \<and> load_contacts json_ex (Regular [CHR 0xFF]) = Inl UnicodeDecodeError"
  by (simp add: load_contacts_Regular json_ex_defs load_except_def)

text \<open>
  C4, amended. If the file is absent, or \<open>json.load\<close> rejects its contents with
  \<open>JSONDecodeError\<close>, then load returns the empty sequence and the next create, its
  save succeeding, assigns the identifier 1. If the contents parse, load returns the
  parsed value as it is.
\<close>

theorem load_contacts_empty_then_first_id:
  "(disk = Missing \<or> (\<exists>s. disk = Regular s \<and> json_load J s = Inl JSONDecodeError)
      \<longrightarrow> load_contacts J disk = Inr (JArr [])
          \<and> fst (create_contact J NoFault now contact disk)
              = Inr (ContactRequest.extend contact \<lparr>id' = 1, createdAt = now\<rparr>))
   \<and> (json_load J t = Inr v \<longrightarrow> load_contacts J (Regular t) = Inr v)"
proof -
  have first: "load_contacts J disk = Inr (JArr [])
      \<and> fst (create_contact J NoFault now contact disk)
          = Inr (ContactRequest.extend contact \<lparr>id' = 1, createdAt = now\<rparr>)"
    if "disk = Missing \<or> (\<exists>s. disk = Regular s \<and> json_load J s = Inl JSONDecodeError)"
  proof -
    from that have l: "load_contacts J disk = Inr (JArr [])"
      by (auto simp: load_contacts_Missing load_contacts_Regular load_except_def)
    have "next_id (JArr []) = Some 1" by (simp add: next_id_def)
    from create_contact_on_list [OF l this] l show ?thesis by simp
  qed
  have parsed: "load_contacts J (Regular t) = Inr v" if "json_load J t = Inr v"
    using that by (simp add: load_contacts_Regular)
  from first parsed show ?thesis by blast
qed

theorem load_contacts_empty_then_first_id_witness:
  "json_load json_ex ''not json'' = Inl JSONDecodeError
   \<and> load_contacts json_ex (Regular ''not json'') = Inr (JArr [])
   \<and> fst (create_contact json_ex NoFault ''2024-05-01T10:00:00''
        \<lparr>name = ''A'', email = ''a@b.com'', subject = ''S'', message = ''M'',
         phone = None, company = None, isDeleted = False\<rparr> (Regular ''not json''))
     = Inr \<lparr>name = ''A'', email = ''a@b.com'', subject = ''S'', message = ''M'',
            phone = None, company = None, isDeleted = False, id' = 1,
            createdAt = ''2024-05-01T10:00:00''\<rparr>
   \<and> json_load json_ex text_two_records
       = Inr (JArr [JObj [(''id'', JInt 7)], JObj [(''id'', JInt 3)]])
   \<and> load_contacts json_ex (Regular text_two_records)
       = Inr (JArr [JObj [(''id'', JInt 7)], JObj [(''id'', JInt 3)]])"
proof -
  have h: "json_load json_ex ''not json'' = Inl JSONDecodeError"
    and p: "json_load json_ex text_two_records
       = Inr (JArr [JObj [(''id'', JInt 7)], JObj [(''id'', JInt 3)]])"
    by (simp_all add: json_ex_defs)
  with load_contacts_empty_then_first_id [of "Regular ''not json''" json_ex
      "''2024-05-01T10:00:00''"
      "\<lparr>name = ''A'', email = ''a@b.com'', subject = ''S'', message = ''M'',
         phone = None, company = None, isDeleted = False\<rparr>"
      text_two_records "JArr [JObj [(''id'', JInt 7)], JObj [(''id'', JInt 3)]]"]
  show ?thesis by (simp add: ContactRequest.extend_def)
qed

text \<open>
  C10. When the file holds valid JSON, load returns the parsed value unchanged, also
  when it is not an array. Load gives the empty sequence only when the file is absent,
  when reading it raises one of the two exceptions that are caught, or when the file
  holds the empty array itself.
\<close>

theorem load_contacts_returns_parsed_value:
  "(json_load J s = Inr v \<longrightarrow> load_contacts J (Regular s) = Inr v)
   \<and> (load_contacts J disk = Inr (JArr [])
        \<longleftrightarrow> disk = Missing
            \<or> (\<exists>t. disk = Regular t
                  \<and> (json_load J t = Inl JSONDecodeError
                      \<or> json_load J t = Inl FileNotFoundError
                      \<or> json_load J t = Inr (JArr []))))"
proof -
  have parsed: "load_contacts J (Regular s) = Inr v" if "json_load J s = Inr v"
    using that by (simp add: load_contacts_Regular)
  have only: "load_contacts J disk = Inr (JArr [])
        \<longleftrightarrow> disk = Missing
            \<or> (\<exists>t. disk = Regular t
                  \<and> (json_load J t = Inl JSONDecodeError
                      \<or> json_load J t = Inl FileNotFoundError
                      \<or> json_load J t = Inr (JArr [])))"
    by (cases disk)
      (auto simp: load_contacts_Missing load_contacts_Regular load_except_def
            split: sum.splits if_splits)
  from parsed only show ?thesis by blast
qed

theorem load_contacts_returns_parsed_value_witness:
  "json_load json_ex ''{}'' = Inr (JObj [])
   \<and> load_contacts json_ex (Regular ''{}'') = Inr (JObj [])
   \<and> load_contacts json_ex (Regular ''{}'') \<noteq> Inr (JArr [])"
proof -
  have h: "json_load json_ex ''{}'' = Inr (JObj [])"
    by (simp add: json_ex_defs)
  with load_contacts_returns_parsed_value [of json_ex "''{}''" "JObj []" Missing]
  show ?thesis by simp
qed



text \<open>
  C3, as stated: a save that fails leaves the file no worse than before, and the file
  is never partially written. The file holds two records; a save of the empty list
  (as clear-all performs it) that fails after one character leaves a file that
  holds neither the old nor the new content and that is not JSON, so the two records
  are lost.
\<close>

theorem save_contacts_counterexample:
  "load_contacts json_ex (Regular text_two_records)
     = Inr (JArr [JObj [(''id'', JInt 7)], JObj [(''id'', JInt 3)]])
   \<and> save_contacts json_ex (WriteFails 1) (JArr []) (Regular text_two_records)
       = (Inl OSError, Regular ''['')
   \<and> ''['' \<noteq> text_two_records
   \<and> ''['' \<noteq> json_dump json_ex (JArr [])
   \<and> json_load json_ex ''['' = Inl JSONDecodeError
   \<and> load_contacts json_ex (Regular ''['') = Inr (JArr [])"
  by (simp add: save_contacts_def load_contacts_Regular json_ex_defs load_except_def)

text \<open>
  C3, amended. A save that completes leaves the file holding the whole new text. A save
  that fails at \<open>open\<close> leaves the file as it was; a save that fails later leaves an
  initial part of the new text, and the earlier content is gone.
\<close>

theorem save_contacts_outcomes:
  "(fst (save_contacts J fault contacts disk) = Inr ()
      \<longrightarrow> snd (save_contacts J fault contacts disk) = Regular (json_dump J contacts))
   \<and> (fst (save_contacts J fault contacts disk) \<noteq> Inr ()
      \<longrightarrow> (fault = OpenFails \<and> snd (save_contacts J fault contacts disk) = disk)
          \<or> (\<exists>k. fault = WriteFails k
                \<and> snd (save_contacts J fault contacts disk)
                    = Regular (take k (json_dump J contacts))))"
  by (cases fault) (simp_all add: save_contacts_def)

theorem save_contacts_outcomes_witness:
  "fst (save_contacts json_ex NoFault (JArr []) (Regular text_two_records)) = Inr ()
   \<and> snd (save_contacts json_ex NoFault (JArr []) (Regular text_two_records)) = Regular ''[]''
   \<and> fst (save_contacts json_ex OpenFails (JArr []) (Regular text_two_records)) \<noteq> Inr ()
   \<and> snd (save_contacts json_ex OpenFails (JArr []) (Regular text_two_records))
       = Regular text_two_records"
  using save_contacts_outcomes [of json_ex NoFault "JArr []" "Regular text_two_records"]
    save_contacts_outcomes [of json_ex OpenFails "JArr []" "Regular text_two_records"]
  by (simp add: save_contacts_def json_ex_defs)

text \<open>
  C9. Clear-all on an empty collection returns before any save: whatever failure a save
  would have met, the answer is the same and the file is left exactly as it was, also
  when there is no file.
\<close>

theorem delete_all_contacts_empty_no_save:
  assumes "load_contacts J disk = Inr contacts" and "\<not> truthy contacts"
  shows "delete_all_contacts J fault disk =
           (Inr [(''message'', JStr ''No contacts to delete''), (''deleted_count'', JInt 0)],
            disk)"
  using assms by (simp add: delete_all_contacts_def)

theorem delete_all_contacts_empty_no_save_witness:
  "load_contacts json_ex Missing = Inr (JArr []) \<and> \<not> truthy (JArr [])
   \<and> delete_all_contacts json_ex (WriteFails 0) Missing =
           (Inr [(''message'', JStr ''No contacts to delete''), (''deleted_count'', JInt 0)],
            Missing)"
proof -
  have l: "load_contacts json_ex Missing = Inr (JArr [])"
    by (rule load_contacts_Missing)
  have e: "\<not> truthy (JArr [])" by simp
  from delete_all_contacts_empty_no_save [OF l e, of "WriteFails 0"] l e
  show ?thesis by simp
qed

text \<open>
  C8, as stated: for every stored collection the answer of clear-all carries a message,
  the count and a snapshot of the removed records. On the empty collection the answer
  has a message and the count only; there is no \<open>deleted_contacts\<close> entry.
\<close>

theorem delete_all_contacts_counterexample:
  "delete_all_contacts json_ex NoFault (Regular ''[]'') =
     (Inr [(''message'', JStr ''No contacts to delete''), (''deleted_count'', JInt 0)],
      Regular ''[]'')
   \<and> map_of [(''message'', JStr ''No contacts to delete''), (''deleted_count'', JInt 0)]
        ''deleted_contacts'' = None"
  by (simp add: delete_all_contacts_def load_contacts_Regular json_ex_defs)

text \<open>
  C8, amended. On a stored collection that is not empty, clear-all, its save succeeding,
  saves the empty list and answers with a message, the number of records removed and
  a snapshot of exactly those records. On the empty collection it is not an error: the
  answer has the message \<open>No contacts to delete\<close> and the count 0, and no snapshot.
\<close>

theorem delete_all_contacts_result:
  assumes "load_contacts J disk = Inr (JArr cs)"
  shows "delete_all_contacts J NoFault disk =
           (if cs = [] then
              (Inr [(''message'', JStr ''No contacts to delete''), (''deleted_count'', JInt 0)],
               disk)
            else
              (Inr [(''message'',
                       JStr (''All '' @ str_nat (length cs) @ '' contacts deleted successfully'')),
                    (''deleted_count'', JInt (int (length cs))),
                    (''deleted_contacts'', JArr cs)],
               Regular (json_dump J (JArr []))))"
  using assms by (simp add: delete_all_contacts_def save_contacts_def del: str_nat.simps)

theorem delete_all_contacts_result_witness:
  "load_contacts json_ex (Regular text_two_records)
     = Inr (JArr [JObj [(''id'', JInt 7)], JObj [(''id'', JInt 3)]])
   \<and> delete_all_contacts json_ex NoFault (Regular text_two_records) =
       (Inr [(''message'', JStr ''All 2 contacts deleted successfully''),
             (''deleted_count'', JInt 2),
             (''deleted_contacts'', JArr [JObj [(''id'', JInt 7)], JObj [(''id'', JInt 3)]])],
        Regular ''[]'')"
proof -
  have l: "load_contacts json_ex (Regular text_two_records)
     = Inr (JArr [JObj [(''id'', JInt 7)], JObj [(''id'', JInt 3)]])"
    by (simp add: load_contacts_Regular json_ex_defs)
  have d: "json_dump json_ex (JArr []) = ''[]''" by (simp add: json_ex_defs)
  have n: "str_nat (length [JObj [(''id'', JInt 7)], JObj [(''id'', JInt 3)]]) = ''2''"
    by code_simp
  from delete_all_contacts_result [OF l] l d n show ?thesis
    by (simp del: str_nat.simps)
qed

end
